theory Spec2Isabelle
  imports Complex_Main
begin

section \<open>JSON values and the JavaScript coercions the handlers rely on\<close>

text \<open>
  Request bodies (parsed by \<^verbatim>\<open>bodyParser.json()\<close>) and provider responses (parsed by
  \<^verbatim>\<open>r.json()\<close>) are JSON values. A JavaScript value that may be \<^verbatim>\<open>undefined\<close> is a
  \<open>json option\<close>, \<open>None\<close> standing for \<^verbatim>\<open>undefined\<close>. Numbers are reals: the
  handlers only test them for truthiness and hand them to \<^verbatim>\<open>String\<close>.
\<close>

datatype json =
    JNull
  | JBool bool
  | JNum real
  | JStr string
  | JArr "json list"
  | JObj "(string \<times> json) list"

type_synonym jsval = "json option"

text \<open>A thrown JavaScript \<^verbatim>\<open>Error\<close>; the handlers read only \<^verbatim>\<open>e.message\<close>.\<close>

datatype exn = Error (message: string)

text \<open>\<^verbatim>\<open>!x\<close>, \<^verbatim>\<open>x ? a : b\<close> and \<^verbatim>\<open>x || d\<close> test truthiness.\<close>

fun truthy :: "jsval \<Rightarrow> bool" where
  "truthy None = False"
| "truthy (Some JNull) = False"
| "truthy (Some (JBool b)) = b"
| "truthy (Some (JNum n)) = (n \<noteq> 0)"
| "truthy (Some (JStr s)) = (s \<noteq> [])"
| "truthy (Some (JArr xs)) = True"
| "truthy (Some (JObj kvs)) = True"

text \<open>
  Property access \<^verbatim>\<open>v.k\<close> on a value that is neither \<^verbatim>\<open>null\<close> nor \<^verbatim>\<open>undefined\<close>, for
  the property names the handlers use (none is an index, \<^verbatim>\<open>length\<close> or a prototype
  member): an object yields its own property, anything else \<^verbatim>\<open>undefined\<close>.
\<close>

fun get_prop :: "string \<Rightarrow> json \<Rightarrow> jsval" where
  "get_prop k (JObj kvs) = map_of kvs k"
| "get_prop k v = None"

text \<open>Element access \<^verbatim>\<open>v[0]\<close> on a value that is neither \<^verbatim>\<open>null\<close> nor \<^verbatim>\<open>undefined\<close>.\<close>

fun index0 :: "json \<Rightarrow> jsval" where
  "index0 (JArr []) = None"
| "index0 (JArr (x # xs)) = Some x"
| "index0 (JStr []) = None"
| "index0 (JStr (c # cs)) = Some (JStr [c])"
| "index0 (JObj kvs) = map_of kvs ''0''"
| "index0 v = None"

text \<open>Optional chaining \<^verbatim>\<open>a?.b\<close>: \<^verbatim>\<open>undefined\<close> when \<^verbatim>\<open>a\<close> is \<^verbatim>\<open>null\<close> or \<^verbatim>\<open>undefined\<close>.\<close>

fun ochain :: "jsval \<Rightarrow> (json \<Rightarrow> jsval) \<Rightarrow> jsval" where
  "ochain None f = None"
| "ochain (Some JNull) f = None"
| "ochain (Some v) f = f v"

text \<open>
  An object literal as \<^verbatim>\<open>JSON.stringify\<close> and \<^verbatim>\<open>res.json\<close> emit it: a property whose value
  is \<^verbatim>\<open>undefined\<close> is left out.
\<close>

fun object_of :: "(string \<times> jsval) list \<Rightarrow> (string \<times> json) list" where
  "object_of [] = []"
| "object_of ((k, None) # r) = object_of r"
| "object_of ((k, Some v) # r) = (k, v) # object_of r"

text \<open>Assignment of one property: an existing key keeps its place, a new one goes last.\<close>

fun set_prop :: "string \<Rightarrow> json \<Rightarrow> (string \<times> json) list \<Rightarrow> (string \<times> json) list" where
  "set_prop k v [] = [(k, v)]"
| "set_prop k v (p # ps) = (if fst p = k then (k, v) # ps else p # set_prop k v ps)"

text \<open>Decimal digits of a natural number, as \<^verbatim>\<open>String\<close> prints an integer below \<open>10^21\<close>.\<close>

definition digit :: "nat \<Rightarrow> char" where
  "digit d = ''0123456789'' ! d"

function show_nat :: "nat \<Rightarrow> string" where
  "show_nat n = (if n < 10 then [digit n] else show_nat (n div 10) @ [digit (n mod 10)])"
  by pat_completeness auto
termination
  by (relation "measure id") auto

declare show_nat.simps [simp del]

text \<open>
  The own enumerable properties that an object spread \<^verbatim>\<open>...v\<close> copies: those of an
  object, the indexed elements of an array or a string, nothing otherwise.
\<close>

fun spread :: "jsval \<Rightarrow> (string \<times> json) list" where
  "spread (Some (JObj kvs)) = kvs"
| "spread (Some (JArr xs)) = zip (map show_nat [0..<length xs]) xs"
| "spread (Some (JStr s)) = zip (map show_nat [0..<length s]) (map (\<lambda>c. JStr [c]) s)"
| "spread v = []"

fun join_comma :: "string list \<Rightarrow> string" where
  "join_comma [] = []"
| "join_comma [s] = s"
| "join_comma (s # t # r) = s @ '','' @ join_comma (t # r)"

text \<open>The first exception among the results wins, as the first throwing step does.\<close>

fun collect :: "(exn + 'a) list \<Rightarrow> exn + 'a list" where
  "collect [] = Inr []"
| "collect (Inl e # r) = Inl e"
| "collect (Inr x # r) = (case collect r of Inl e \<Rightarrow> Inl e | Inr xs \<Rightarrow> Inr (x # xs))"

text \<open>
  \<^verbatim>\<open>String(v)\<close>, the conversion a template literal applies. How a number prints is the
  engine's \<^verbatim>\<open>Number.prototype.toString\<close>, taken as the parameter \<open>num\<close>. An array joins
  the conversions of its elements with commas, \<^verbatim>\<open>null\<close> printing as nothing. An object is
  converted through its \<^verbatim>\<open>toString\<close> property: a parsed object that has an own key
  \<^verbatim>\<open>toString\<close> hides the inherited method behind a value that cannot be called, the
  inherited \<^verbatim>\<open>valueOf\<close> (or an own one) yields no primitive either, and the conversion
  throws a \<^verbatim>\<open>TypeError\<close>; any other object prints as \<^verbatim>\<open>[object Object]\<close>.
\<close>

fun to_String :: "(real \<Rightarrow> string) \<Rightarrow> json \<Rightarrow> exn + string" where
  "to_String num JNull = Inr ''null''"
| "to_String num (JBool b) = Inr (if b then ''true'' else ''false'')"
| "to_String num (JNum n) = Inr (num n)"
| "to_String num (JStr s) = Inr s"
| "to_String num (JArr xs) =
     (case collect (map (\<lambda>x. if x = JNull then Inr [] else to_String num x) xs) of
        Inl e \<Rightarrow> Inl e
      | Inr parts \<Rightarrow> Inr (join_comma parts))"
| "to_String num (JObj kvs) =
     (case map_of kvs ''toString'' of
        Some v \<Rightarrow> Inl (Error ''Cannot convert object to primitive value'')
      | None \<Rightarrow> Inr ''[object Object]'')"

definition template_str :: "(real \<Rightarrow> string) \<Rightarrow> jsval \<Rightarrow> exn + string" where
  "template_str num v = (case v of None \<Rightarrow> Inr ''undefined'' | Some j \<Rightarrow> to_String num j)"

section \<open>Configuration, requests and responses\<close>

text \<open>
  \<^verbatim>\<open>process.env\<close> is a dictionary from names to strings. A request body is the JSON object
  that the body parser leaves in \<^verbatim>\<open>req.body\<close> (\<^verbatim>\<open>{}\<close> when the request carries none), its
  keys distinct as \<^verbatim>\<open>JSON.parse\<close> leaves them; destructuring reads a key or gets
  \<^verbatim>\<open>undefined\<close>.
\<close>

type_synonym env = "string \<rightharpoonup> string"

type_synonym body = "(string \<times> json) list"

definition body_field :: "body \<Rightarrow> string \<Rightarrow> jsval" where
  "body_field b k = map_of b k"

text \<open>\<^verbatim>\<open>!X\<close> on an environment value: true when it is unset or the empty string.\<close>

definition present :: "string option \<Rightarrow> bool" where
  "present v = (case v of None \<Rightarrow> False | Some s \<Rightarrow> s \<noteq> [])"

definition env_str :: "string option \<Rightarrow> string" where
  "env_str v = (case v of None \<Rightarrow> ''undefined'' | Some s \<Rightarrow> s)"

text \<open>
  What a handler does with a request: it sends a JSON response with a status, or an
  exception leaves the handler.
\<close>

datatype outcome = Responded nat json | Uncaught exn

definition failure :: "string \<Rightarrow> json" where
  "failure m = JObj [(''ok'', JBool False), (''error'', JStr m)]"

section \<open>The providers\<close>

record fetch_request =
  rq_url :: string
  rq_method :: string
  rq_headers :: "(string \<times> string) list"
  rq_body :: json

text \<open>The response of \<^verbatim>\<open>fetch\<close>: its status and what \<^verbatim>\<open>r.json()\<close> gives or throws.\<close>

record fetch_response =
  status :: nat
  json_body :: "exn + json"

definition ok :: "fetch_response \<Rightarrow> bool" where
  "ok r = (200 \<le> status r \<and> status r < 300)"

text \<open>What the storage client's \<^verbatim>\<open>createSignedUploadUrl\<close> resolves to.\<close>

record signed_result =
  sr_data :: jsval
  sr_error :: "exn option"

record supabase_client =
  createSignedUploadUrl :: "string \<Rightarrow> string \<Rightarrow> exn + signed_result"
  getPublicUrl :: "string \<Rightarrow> jsval \<Rightarrow> exn + string"

text \<open>The service identity that \<^verbatim>\<open>googleClient()\<close> builds.\<close>

record jwt =
  jwt_email :: "string option"
  jwt_key :: string
  jwt_scopes :: "string list"

text \<open>
  A Google API call resolves with the provider's response, or rejects with an error that
  may carry the provider's status and body.
\<close>

record upstream =
  u_status :: nat
  u_data :: jsval

datatype gaxios_result = Resolved upstream | Rejected exn "upstream option"

text \<open>
  Everything outside the module: the clock, the storage client factory, \<^verbatim>\<open>fetch\<close>, the
  two Google API methods, and the engine's number printing.
\<close>

record world =
  now :: nat
  createClient :: "string option \<Rightarrow> string option \<Rightarrow> exn + supabase_client"
  fetch :: "fetch_request \<Rightarrow> exn + fetch_response"
  events_insert :: "jwt \<Rightarrow> string option \<Rightarrow> json \<Rightarrow> gaxios_result"
  values_append :: "jwt \<Rightarrow> string option \<Rightarrow> jsval \<Rightarrow> string \<Rightarrow> json \<Rightarrow> gaxios_result"
  numberToString :: "real \<Rightarrow> string"

text \<open>The calls a handler makes to a provider or a provider client, in order.\<close>

datatype call =
    Fetch fetch_request
  | CreateSignedUploadUrl string string
  | GetPublicUrl string jsval
  | EventsInsert jwt "string option" json
  | ValuesAppend jwt "string option" jsval string json

type_synonym result = "call list \<times> outcome"

section \<open>The handlers\<close>

subsection \<open>\<^verbatim>\<open>POST /api/whatsapp/send\<close>\<close>

text \<open>The arrow function \<^verbatim>\<open>t => ({ type: "text", text: t })\<close>.\<close>

definition text_entry :: "json \<Rightarrow> json" where
  "text_entry t = JObj [(''type'', JStr ''text''), (''text'', t)]"

text \<open>
  \<^verbatim>\<open>templateParams ? [{ type: "body", parameters: templateParams.map(...) }] : []\<close>:
  \<^verbatim>\<open>map\<close> exists on arrays only, so any other truthy value raises a \<^verbatim>\<open>TypeError\<close>.
\<close>

definition template_components :: "jsval \<Rightarrow> exn + json" where
  "template_components templateParams =
     (if truthy templateParams then
        (case templateParams of
           Some (JArr ts) \<Rightarrow>
             Inr (JArr [JObj [(''type'', JStr ''body''),
                              (''parameters'', JArr (map text_entry ts))]])
         | _ \<Rightarrow> Inl (Error ''templateParams.map is not a function''))
      else Inr (JArr []))"

definition whatsapp_payload :: "body \<Rightarrow> exn + json" where
  "whatsapp_payload b =
     (let to = body_field b ''to'';
          text = body_field b ''text'';
          templateName = body_field b ''templateName'';
          templateParams = body_field b ''templateParams''
      in if truthy templateName then
           (case template_components templateParams of
              Inl e \<Rightarrow> Inl e
            | Inr components \<Rightarrow>
                Inr (JObj (object_of
                  [(''messaging_product'', Some (JStr ''whatsapp'')),
                   (''to'', to),
                   (''type'', Some (JStr ''template'')),
                   (''template'', Some (JObj (object_of
                      [(''name'', templateName),
                       (''language'', Some (JObj [(''code'', JStr ''en_US'')])),
                       (''components'', Some components)])))])))
         else
           Inr (JObj (object_of
             [(''messaging_product'', Some (JStr ''whatsapp'')),
              (''to'', to),
              (''type'', Some (JStr ''text'')),
              (''text'', Some (JObj (object_of [(''body'', text)])))])))"

definition whatsapp_request :: "env \<Rightarrow> json \<Rightarrow> fetch_request" where
  "whatsapp_request env payload =
     \<lparr> rq_url = ''https://graph.facebook.com/v20.0/'' @ env_str (env ''META_PHONE_NUMBER_ID'')
                  @ ''/messages'',
       rq_method = ''POST'',
       rq_headers = [(''Authorization'', ''Bearer '' @ env_str (env ''META_WABA_TOKEN'')),
                     (''Content-Type'', ''application/json'')],
       rq_body = payload \<rparr>"

definition whatsapp_send :: "env \<Rightarrow> world \<Rightarrow> body \<Rightarrow> result" where
  "whatsapp_send env w b =
     (if \<not> present (env ''META_WABA_TOKEN'') \<or> \<not> present (env ''META_PHONE_NUMBER_ID'') then
        ([], Responded 400
               (failure ''WhatsApp API credentials are not configured on the server.''))
      else
        (case whatsapp_payload b of
           Inl e \<Rightarrow> ([], Responded 500 (failure (message e)))
         | Inr payload \<Rightarrow>
             (let rq = whatsapp_request env payload in
              case fetch w rq of
                Inl e \<Rightarrow> ([Fetch rq], Responded 500 (failure (message e)))
              | Inr r \<Rightarrow>
                  (case json_body r of
                     Inl e \<Rightarrow> ([Fetch rq], Responded 500 (failure (message e)))
                   | Inr data \<Rightarrow>
                       if \<not> ok r then ([Fetch rq], Responded (status r) data)
                       else ([Fetch rq],
                             Responded 200 (JObj [(''ok'', JBool True), (''data'', data)]))))))"

subsection \<open>\<^verbatim>\<open>POST /api/materials/sign-url\<close> and \<^verbatim>\<open>POST /api/materials/public-url\<close>\<close>

text \<open>
  The template literal \<^verbatim>\<open>`${Date.now()}-${fileName}`\<close>; it throws when the conversion of
  \<^verbatim>\<open>fileName\<close> does.
\<close>

definition object_key :: "world \<Rightarrow> jsval \<Rightarrow> exn + string" where
  "object_key w fileName =
     (case template_str (numberToString w) fileName of
        Inl e \<Rightarrow> Inl e
      | Inr s \<Rightarrow> Inr (show_nat (now w) @ ''-'' @ s))"

text \<open>The object literal \<^verbatim>\<open>{ ok: true, ...data, bucket }\<close>.\<close>

definition signed_body :: "jsval \<Rightarrow> string \<Rightarrow> json" where
  "signed_body data bucket =
     JObj (set_prop ''bucket'' (JStr bucket)
            (foldl (\<lambda>o' (k, v). set_prop k v o') [(''ok'', JBool True)] (spread data)))"

definition sign_url :: "env \<Rightarrow> supabase_client \<Rightarrow> world \<Rightarrow> body \<Rightarrow> result" where
  "sign_url env supabase w b =
     (if \<not> present (env ''SUPABASE_URL'') \<or> \<not> present (env ''SUPABASE_SERVICE_KEY'') then
        ([], Responded 400 (failure ''Supabase credentials are not configured on the server.''))
      else
        (let fileName = body_field b ''fileName'';
             bucket = ''materials''
         in case object_key w fileName of
              Inl e \<Rightarrow> ([], Responded 500 (failure (message e)))
            | Inr key \<Rightarrow>
                (let c = CreateSignedUploadUrl bucket key
                 in case createSignedUploadUrl supabase bucket key of
                      Inl e \<Rightarrow> ([c], Responded 500 (failure (message e)))
                    | Inr r \<Rightarrow>
                        (case sr_error r of
                           Some e \<Rightarrow> ([c], Responded 500 (failure (message e)))
                         | None \<Rightarrow> ([c], Responded 200 (signed_body (sr_data r) bucket))))))"

definition public_url :: "supabase_client \<Rightarrow> body \<Rightarrow> result" where
  "public_url supabase b =
     (let path = body_field b ''path'';
          c = GetPublicUrl ''materials'' path
      in case getPublicUrl supabase ''materials'' path of
           Inl e \<Rightarrow> ([c], Uncaught e)
         | Inr publicUrl \<Rightarrow>
             ([c], Responded 200 (JObj [(''ok'', JBool True), (''url'', JStr publicUrl)])))"

subsection \<open>The Google service identity, \<^verbatim>\<open>/api/calendar/create\<close> and \<^verbatim>\<open>/api/sheets/append\<close>\<close>

text \<open>\<^verbatim>\<open>.replace(/\\n/g, "\n")\<close>: every backslash followed by \<open>n\<close> becomes a line feed.\<close>

fun unescape_newlines :: "string \<Rightarrow> string" where
  "unescape_newlines (a # b # r) =
     (if a = CHR 0x5C \<and> b = CHR ''n'' then CHR 0x0A # unescape_newlines r
      else a # unescape_newlines (b # r))"
| "unescape_newlines s = s"

definition googleClient :: "env \<Rightarrow> exn + jwt" where
  "googleClient env =
     (case env ''GCP_PRIVATE_KEY'' of
        None \<Rightarrow> Inl (Error ''Cannot read properties of undefined (reading replace)'')
      | Some k \<Rightarrow>
          Inr \<lparr> jwt_email = env ''GCP_PROJECT_EMAIL'',
                jwt_key = unescape_newlines k,
                jwt_scopes = [''https://www.googleapis.com/auth/calendar'',
                              ''https://www.googleapis.com/auth/spreadsheets''] \<rparr>)"

definition event_body :: "body \<Rightarrow> json" where
  "event_body b =
     JObj (object_of
       [(''summary'', body_field b ''summary''),
        (''description'', body_field b ''description''),
        (''start'', Some (JObj (object_of [(''dateTime'', body_field b ''startISO'')]))),
        (''end'', Some (JObj (object_of [(''dateTime'', body_field b ''endISO'')])))])"

definition calendar_create :: "env \<Rightarrow> world \<Rightarrow> body \<Rightarrow> result" where
  "calendar_create env w b =
     (if \<not> present (env ''GCP_PROJECT_EMAIL'') \<or> \<not> present (env ''GCP_PRIVATE_KEY'')
         \<or> \<not> present (env ''CALENDAR_ID'') then
        ([], Responded 400
               (failure ''Google Calendar credentials are not configured on the server.''))
      else
        (case googleClient env of
           Inl e \<Rightarrow> ([], Responded 500 (failure (message e)))
         | Inr auth \<Rightarrow>
             (let c = EventsInsert auth (env ''CALENDAR_ID'') (event_body b)
              in case events_insert w auth (env ''CALENDAR_ID'') (event_body b) of
                   Rejected e u \<Rightarrow> ([c], Responded 500 (failure (message e)))
                 | Resolved r \<Rightarrow>
                     (case u_data r of
                        None \<Rightarrow>
                          ([c], Responded 500
                                  (failure ''Cannot read properties of undefined (reading id)''))
                      | Some JNull \<Rightarrow>
                          ([c], Responded 500
                                  (failure ''Cannot read properties of null (reading id)''))
                      | Some data \<Rightarrow>
                          ([c], Responded 200 (JObj (object_of
                                  [(''ok'', Some (JBool True)),
                                   (''eventId'', get_prop ''id'' data),
                                   (''htmlLink'', get_prop ''htmlLink'' data)])))))))"

definition sheets_append :: "env \<Rightarrow> world \<Rightarrow> body \<Rightarrow> result" where
  "sheets_append env w b =
     (if \<not> present (env ''GCP_PROJECT_EMAIL'') \<or> \<not> present (env ''GCP_PRIVATE_KEY'')
         \<or> \<not> present (env ''SHEET_ID'') then
        ([], Responded 400
               (failure ''Google Sheets credentials are not configured on the server.''))
      else
        (case googleClient env of
           Inl e \<Rightarrow> ([], Responded 500 (failure (message e)))
         | Inr auth \<Rightarrow>
             (let range = body_field b ''range'';
                  requestBody = JObj (object_of [(''values'', body_field b ''values'')]);
                  c = ValuesAppend auth (env ''SHEET_ID'') range ''USER_ENTERED'' requestBody
              in case values_append w auth (env ''SHEET_ID'') range ''USER_ENTERED'' requestBody of
                   Rejected e u \<Rightarrow> ([c], Responded 500 (failure (message e)))
                 | Resolved r \<Rightarrow>
                     ([c], Responded 200 (JObj (object_of
                             [(''ok'', Some (JBool True)), (''data'', u_data r)]))))))"

subsection \<open>\<^verbatim>\<open>POST /api/ai/generate\<close>\<close>

text \<open>The stages of \<^verbatim>\<open>data?.candidates?.[0]?.content?.parts?.[0]?.text\<close>.\<close>

definition candidates :: "json \<Rightarrow> jsval" where
  "candidates data = ochain (Some data) (get_prop ''candidates'')"

definition first_parts :: "json \<Rightarrow> jsval" where
  "first_parts data =
     ochain (ochain (ochain (candidates data) index0) (get_prop ''content''))
       (get_prop ''parts'')"

definition extract_text :: "json \<Rightarrow> jsval" where
  "extract_text data = ochain (ochain (first_parts data) index0) (get_prop ''text'')"

definition ai_request :: "env \<Rightarrow> jsval \<Rightarrow> fetch_request" where
  "ai_request env prompt =
     \<lparr> rq_url = ''https://generativelanguage.googleapis.com/v1beta/models/gemini-2.5-flash-preview-05-20:generateContent?key=''
                  @ env_str (env ''GEMINI_API_KEY''),
       rq_method = ''POST'',
       rq_headers = [(''Content-Type'', ''application/json'')],
       rq_body = JObj [(''contents'',
                   JArr [JObj [(''role'', JStr ''user''),
                               (''parts'', JArr [JObj (object_of [(''text'', prompt)])])]])] \<rparr>"

definition ai_generate :: "env \<Rightarrow> world \<Rightarrow> body \<Rightarrow> result" where
  "ai_generate env w b =
     (if \<not> present (env ''GEMINI_API_KEY'') then
        ([], Responded 400 (failure ''Gemini API key is not configured on the server.''))
      else
        (let rq = ai_request env (body_field b ''prompt'')
         in case fetch w rq of
              Inl e \<Rightarrow> ([Fetch rq], Responded 500 (failure (message e)))
            | Inr r \<Rightarrow>
                (case json_body r of
                   Inl e \<Rightarrow> ([Fetch rq], Responded 500 (failure (message e)))
                 | Inr data \<Rightarrow>
                     if \<not> ok r then ([Fetch rq], Responded (status r) data)
                     else
                       (let text = (if truthy (extract_text data) then extract_text data
                                    else Some (JStr []))
                        in ([Fetch rq],
                            Responded 200 (JObj (object_of
                              [(''ok'', Some (JBool True)), (''text'', text)])))))))"

subsection \<open>The server\<close>

datatype route = WhatsappSend | SignUrl | PublicUrl | CalendarCreate | SheetsAppend | AiGenerate

definition handle :: "env \<Rightarrow> supabase_client \<Rightarrow> world \<Rightarrow> route \<Rightarrow> body \<Rightarrow> result" where
  "handle env supabase w r b =
     (case r of
        WhatsappSend \<Rightarrow> whatsapp_send env w b
      | SignUrl \<Rightarrow> sign_url env supabase w b
      | PublicUrl \<Rightarrow> public_url supabase b
      | CalendarCreate \<Rightarrow> calendar_create env w b
      | SheetsAppend \<Rightarrow> sheets_append env w b
      | AiGenerate \<Rightarrow> ai_generate env w b)"

text \<open>
  Module evaluation: \<^verbatim>\<open>createClient(SUPABASE_URL, SUPABASE_SERVICE_KEY)\<close> runs at module
  scope, outside any \<^verbatim>\<open>try\<close>, before \<^verbatim>\<open>app.listen\<close>. If it throws, the process never
  listens; otherwise every request is handled with the client it returned.
\<close>

datatype served = NotStarted exn | Served result

definition serve :: "env \<Rightarrow> world \<Rightarrow> route \<Rightarrow> body \<Rightarrow> served" where
  "serve env w r b =
     (case createClient w (env ''SUPABASE_URL'') (env ''SUPABASE_SERVICE_KEY'') of
        Inl e \<Rightarrow> NotStarted e
      | Inr supabase \<Rightarrow> Served (handle env supabase w r b))"

section \<open>Vocabulary of the specification\<close>

text \<open>The environment variables each handler's guard tests (lines 27--33 and the guards).\<close>

fun config_vars :: "route \<Rightarrow> string list" where
  "config_vars WhatsappSend = [''META_WABA_TOKEN'', ''META_PHONE_NUMBER_ID'']"
| "config_vars SignUrl = [''SUPABASE_URL'', ''SUPABASE_SERVICE_KEY'']"
| "config_vars PublicUrl = []"
| "config_vars CalendarCreate = [''GCP_PROJECT_EMAIL'', ''GCP_PRIVATE_KEY'', ''CALENDAR_ID'']"
| "config_vars SheetsAppend = [''GCP_PROJECT_EMAIL'', ''GCP_PRIVATE_KEY'', ''SHEET_ID'']"
| "config_vars AiGenerate = [''GEMINI_API_KEY'']"

definition configured :: "env \<Rightarrow> route \<Rightarrow> bool" where
  "configured env r = list_all (\<lambda>k. present (env k)) (config_vars r)"

fun config_message :: "route \<Rightarrow> string" where
  "config_message WhatsappSend = ''WhatsApp API credentials are not configured on the server.''"
| "config_message SignUrl = ''Supabase credentials are not configured on the server.''"
| "config_message PublicUrl = []"
| "config_message CalendarCreate =
     ''Google Calendar credentials are not configured on the server.''"
| "config_message SheetsAppend = ''Google Sheets credentials are not configured on the server.''"
| "config_message AiGenerate = ''Gemini API key is not configured on the server.''"


section \<open>Concrete environments and providers\<close>

definition env_full :: env where
  "env_full = map_of
     [(''META_WABA_TOKEN'', ''tok''), (''META_PHONE_NUMBER_ID'', ''1055''),
      (''SUPABASE_URL'', ''https://p.supabase.co''), (''SUPABASE_SERVICE_KEY'', ''svc''),
      (''GCP_PROJECT_EMAIL'', ''relay@p.iam.gserviceaccount.com''),
      (''GCP_PRIVATE_KEY'', ''k''), (''CALENDAR_ID'', ''cal''), (''SHEET_ID'', ''sheet''),
      (''GEMINI_API_KEY'', ''gk'')]"

text \<open>Everything but the two storage variables.\<close>

definition env_no_storage :: env where
  "env_no_storage = env_full (''SUPABASE_URL'' := None, ''SUPABASE_SERVICE_KEY'' := None)"

text \<open>Everything but the calendar identifier.\<close>

definition env_no_calendar :: env where
  "env_no_calendar = env_full (''CALENDAR_ID'' := None)"

text \<open>
  A storage client whose public-URL lookup needs a string path and throws on anything
  else.
\<close>

definition demo_client :: supabase_client where
  "demo_client =
     \<lparr> createSignedUploadUrl =
         (\<lambda>bucket key. Inr \<lparr> sr_data = Some (JObj [(''path'', JStr key), (''token'', JStr ''t'')]),
                               sr_error = None \<rparr>),
       getPublicUrl =
         (\<lambda>bucket path.
            case path of
              Some (JStr p) \<Rightarrow>
                Inr (''https://p.supabase.co/storage/v1/object/public/'' @ bucket @ ''/'' @ p)
            | _ \<Rightarrow> Inl (Error ''path.replace is not a function'')) \<rparr>"

text \<open>
  The client factory of the storage library: its constructor throws when the URL is
  missing or empty, then when the key is.
\<close>

definition strict_createClient :: "string option \<Rightarrow> string option \<Rightarrow> exn + supabase_client" where
  "strict_createClient supabaseUrl supabaseKey =
     (if \<not> present supabaseUrl then Inl (Error ''supabaseUrl is required.'')
      else if \<not> present supabaseKey then Inl (Error ''supabaseKey is required.'')
      else Inr demo_client)"

definition event_data :: json where
  "event_data = JObj [(''kind'', JStr ''calendar#event''), (''id'', JStr ''evt1''),
                      (''htmlLink'', JStr ''https://calendar.example/evt1'')]"

text \<open>A world in which every provider answers with success.\<close>

definition demo_world :: world where
  "demo_world =
     \<lparr> now = 1700000000000,
       createClient = strict_createClient,
       fetch = (\<lambda>rq. Inr \<lparr> status = 200, json_body = Inr (JObj []) \<rparr>),
       events_insert = (\<lambda>auth cal rb. Resolved \<lparr> u_status = 200, u_data = Some event_data \<rparr>),
       values_append =
         (\<lambda>auth sheet range opt rb. Resolved \<lparr> u_status = 200, u_data = Some (JObj []) \<rparr>),
       numberToString = (\<lambda>n. ''0'') \<rparr>"



text \<open>The messaging and text providers answer 401 with their own error body.\<close>

definition provider_error :: json where
  "provider_error = JObj [(''error'', JObj [(''message'', JStr ''Invalid OAuth access token'')])]"

definition world_401 :: world where
  "world_401 = demo_world \<lparr> fetch := (\<lambda>rq. Inr \<lparr> status = 401, json_body = Inr provider_error \<rparr>) \<rparr>"

text \<open>The calendar provider answers 404; the client library rejects with an error.\<close>

definition not_found :: upstream where
  "not_found = \<lparr> u_status = 404, u_data = Some (JObj [(''error'', JStr ''Not Found'')]) \<rparr>"

definition world_404 :: world where
  "world_404 =
     demo_world \<lparr> events_insert := (\<lambda>auth cal rb. Rejected (Error ''Not Found'') (Some not_found)) \<rparr>"

definition hello_body :: body where
  "hello_body = [(''to'', JStr ''15551234567''), (''text'', JStr ''Hello'')]"

definition template_body :: body where
  "template_body =
     [(''to'', JStr ''15551234567''), (''templateName'', JStr ''fee_reminder''),
      (''templateParams'', JArr [JStr ''Asha'', JStr ''500''])]"

text \<open>A body whose template name is present but empty.\<close>

definition empty_name_body :: body where
  "empty_name_body =
     [(''to'', JStr ''15551234567''), (''templateName'', JStr []), (''text'', JStr ''Hello'')]"

text \<open>A body whose template parameters are a string, not a list.\<close>

definition string_params_body :: body where
  "string_params_body =
     [(''to'', JStr ''15551234567''), (''templateName'', JStr ''fee_reminder''),
      (''templateParams'', JStr ''Asha'')]"

definition event_request :: body where
  "event_request =
     [(''summary'', JStr ''Maths''), (''description'', JStr ''Batch A''),
      (''startISO'', JStr ''2025-01-06T10:00:00+05:30''),
      (''endISO'', JStr ''2025-01-06T11:00:00+05:30'')]"

definition append_request :: body where
  "append_request =
     [(''range'', JStr ''Attendance!A:D''),
      (''values'', JArr [JArr [JStr ''Asha'', JStr ''P'']])]"

definition path_request :: body where
  "path_request = [(''path'', JStr ''1700000000000-notes.pdf'')]"

definition demo_auth :: jwt where
  "demo_auth =
     \<lparr> jwt_email = Some ''relay@p.iam.gserviceaccount.com'',
       jwt_key = ''k'',
       jwt_scopes = [''https://www.googleapis.com/auth/calendar'',
                     ''https://www.googleapis.com/auth/spreadsheets''] \<rparr>"




definition notes_request :: body where
  "notes_request = [(''fileName'', JStr ''notes.pdf'')]"

definition prompt_request :: body where
  "prompt_request = [(''prompt'', JStr ''Summarise the attendance of batch A'')]"

section \<open>Decimal printing is injective\<close>

lemma digit_code: "d < 10 \<Longrightarrow> (of_char (digit d) :: nat) = 48 + d"
proof -
  assume "d < 10"
  then have "d = 0 \<or> d = 1 \<or> d = 2 \<or> d = 3 \<or> d = 4 \<or> d = 5 \<or> d = 6 \<or> d = 7
             \<or> d = 8 \<or> d = 9"
    by arith
  then show ?thesis
    by (elim disjE) (simp_all add: digit_def)
qed

lemma digit_inj: "a < 10 \<Longrightarrow> b < 10 \<Longrightarrow> digit a = digit b \<Longrightarrow> a = b"
proof -
  assume a: "a < 10" and b: "b < 10" and e: "digit a = digit b"
  have "48 + a = (of_char (digit a) :: nat)" using a by (simp only: digit_code)
  also have "\<dots> = of_char (digit b)" by (simp only: e)
  also have "\<dots> = 48 + b" using b by (simp only: digit_code)
  finally show ?thesis by simp
qed

lemma show_nat_nonempty: "show_nat n \<noteq> []"
  by (subst show_nat.simps) simp

lemma show_nat_inj: "show_nat a = show_nat b \<Longrightarrow> a = b"
proof (induction a arbitrary: b rule: show_nat.induct)
  case (1 n)
  note unfold = show_nat.simps [of n] show_nat.simps [of b]
  note nonempty = show_nat_nonempty show_nat_nonempty [symmetric]
  show ?case
  proof (cases "n < 10")
    case True
    show ?thesis
    proof (cases "b < 10")
      case b: True
      with True "1.prems" show ?thesis
        by (simp add: unfold digit_inj)
    next
      case b: False
      with True "1.prems" show ?thesis
        by (simp add: unfold nonempty)
    qed
  next
    case False
    show ?thesis
    proof (cases "b < 10")
      case b: True
      with False "1.prems" show ?thesis
        by (simp add: unfold nonempty)
    next
      case b: False
      with False "1.prems" have e: "show_nat (n div 10) = show_nat (b div 10)"
        and d: "digit (n mod 10) = digit (b mod 10)"
        by (simp_all add: unfold)
      from "1.IH" [OF False e] have q: "n div 10 = b div 10" .
      from d have r: "n mod 10 = b mod 10"
        by (intro digit_inj) simp_all
      from q r show ?thesis
        by (metis div_mult_mod_eq)
    qed
  qed
qed


lemma object_key_inj:
  assumes "template_str (numberToString w) v = Inr s" and "t \<noteq> now w"
  shows "object_key (w \<lparr> now := t \<rparr>) v \<noteq> object_key w v"
proof
  assume "object_key (w \<lparr> now := t \<rparr>) v = object_key w v"
  with assms(1) have "show_nat t = show_nat (now w)"
    by (simp add: object_key_def)
  with assms(2) show False
    using show_nat_inj by blast
qed




section \<open>Create Signed Upload URL: the object key\<close>




section \<open>Generate Text: the empty default\<close>

lemma first_parts_None: "candidates data = None \<Longrightarrow> first_parts data = None"
  by (simp add: first_parts_def)

lemma extract_text_None: "first_parts data = None \<Longrightarrow> extract_text data = None"
  by (simp add: extract_text_def)

text \<open>
  Claim C9. With the API key configured, when the provider answers with a 2xx status and
  a JSON body that has no candidates, or whose first candidate has no content parts, or
  whose first part has no text, the endpoint answers 200 with \<^verbatim>\<open>{ ok: true, text: "" }\<close>.
\<close>

theorem generate_text_default:
  assumes "present (env ''GEMINI_API_KEY'')"
    and "fetch w (ai_request env (body_field b ''prompt'')) = Inr r"
    and "ok r"
    and "json_body r = Inr data"
    and "candidates data = None \<or> first_parts data = None \<or> extract_text data = None"
  shows "snd (ai_generate env w b) =
           Responded 200 (JObj [(''ok'', JBool True), (''text'', JStr [])])"
proof -
  from assms(5) have "extract_text data = None"
    using first_parts_None extract_text_None by blast
  with assms(1-4) show ?thesis
    by (simp add: ai_generate_def Let_def)
qed

theorem generate_text_default_witness:
  "present (env_full ''GEMINI_API_KEY'') \<and>
   fetch demo_world (ai_request env_full (body_field prompt_request ''prompt''))
     = Inr \<lparr> status = 200, json_body = Inr (JObj []) \<rparr> \<and>
   ok \<lparr> status = 200, json_body = Inr (JObj []) \<rparr> \<and>
   candidates (JObj []) = None \<and>
   snd (ai_generate env_full demo_world prompt_request) =
     Responded 200 (JObj [(''ok'', JBool True), (''text'', JStr [])])"
proof -
  have c: "present (env_full ''GEMINI_API_KEY'')"
    by (simp add: env_full_def present_def)
  have f: "fetch demo_world (ai_request env_full (body_field prompt_request ''prompt''))
             = Inr \<lparr> status = 200, json_body = Inr (JObj []) \<rparr>"
    by (simp add: demo_world_def)
  have k: "ok \<lparr> status = 200, json_body = Inr (JObj []) \<rparr>"
    by (simp add: ok_def)
  have d: "candidates (JObj []) = None"
    by (simp add: candidates_def)
  from d have d': "candidates (JObj []) = None \<or> first_parts (JObj []) = None
                    \<or> extract_text (JObj []) = None"
    by simp
  have "snd (ai_generate env_full demo_world prompt_request) =
          Responded 200 (JObj [(''ok'', JBool True), (''text'', JStr [])])"
    using generate_text_default [OF c f k _ d'] by simp
  with c f k d show ?thesis by blast
qed

section \<open>Shared facts about the handlers\<close>

lemmas env_eval = env_full_def env_no_storage_def env_no_calendar_def present_def

lemma googleClient_present:
  "present (env ''GCP_PRIVATE_KEY'') \<Longrightarrow> \<exists>auth. googleClient env = Inr auth"
  by (auto simp: googleClient_def present_def split: option.splits)

lemma unconfigured_400:
  "r \<noteq> PublicUrl \<Longrightarrow> \<not> configured env r \<Longrightarrow>
   handle env supabase w r b = ([], Responded 400 (failure (config_message r)))"
  by (cases r) (auto simp: handle_def configured_def whatsapp_send_def sign_url_def
      calendar_create_def sheets_append_def ai_generate_def)

lemma whatsapp_responds: "\<exists>s j. snd (whatsapp_send env w b) = Responded s j"
  by (simp add: whatsapp_send_def Let_def split: sum.split)

lemma sign_url_responds: "\<exists>s j. snd (sign_url env supabase w b) = Responded s j"
  by (simp add: sign_url_def Let_def split: sum.split option.split)

lemma calendar_responds: "\<exists>s j. snd (calendar_create env w b) = Responded s j"
  by (simp add: calendar_create_def Let_def
      split: sum.split option.split gaxios_result.split json.split)

lemma sheets_responds: "\<exists>s j. snd (sheets_append env w b) = Responded s j"
  by (simp add: sheets_append_def Let_def split: sum.split gaxios_result.split)

lemma ai_responds: "\<exists>s j. snd (ai_generate env w b) = Responded s j"
  by (simp add: ai_generate_def Let_def split: sum.split)

lemma guarded_responds:
  "r \<noteq> PublicUrl \<Longrightarrow> \<exists>s j. snd (handle env supabase w r b) = Responded s j"
  by (cases r) (simp_all add: handle_def whatsapp_responds sign_url_responds calendar_responds
      sheets_responds ai_responds)

lemma present_simps: "present None = False" "present (Some s) = (s \<noteq> [])"
  by (simp_all add: present_def)

lemma full_present:
  "present (env_full ''META_WABA_TOKEN'')" "present (env_full ''META_PHONE_NUMBER_ID'')"
  "present (env_full ''SUPABASE_URL'')" "present (env_full ''SUPABASE_SERVICE_KEY'')"
  "present (env_full ''GCP_PROJECT_EMAIL'')" "present (env_full ''GCP_PRIVATE_KEY'')"
  "present (env_full ''CALENDAR_ID'')" "present (env_full ''SHEET_ID'')"
  "present (env_full ''GEMINI_API_KEY'')"
  by (simp_all add: env_full_def present_def)

lemma full_ids: "env_full ''CALENDAR_ID'' = Some ''cal''" "env_full ''SHEET_ID'' = Some ''sheet''"
  by (simp_all add: env_full_def)

lemma googleClient_full: "googleClient env_full = Inr demo_auth"
  by (simp add: googleClient_def env_full_def demo_auth_def)

lemma hello_payload:
  "whatsapp_payload hello_body =
     Inr (JObj [(''messaging_product'', JStr ''whatsapp''), (''to'', JStr ''15551234567''),
                (''type'', JStr ''text''), (''text'', JObj [(''body'', JStr ''Hello'')])])"
  by (simp add: whatsapp_payload_def hello_body_def body_field_def)

section \<open>Sheets Append: the call made\<close>

text \<open>
  Claim C8. With the service identity and the spreadsheet identifier configured, the
  handler makes one append call, with \<^verbatim>\<open>valueInputOption\<close> \<^verbatim>\<open>USER_ENTERED\<close>, with the
  request's \<^verbatim>\<open>range\<close> as the range, and with a request body whose \<^verbatim>\<open>values\<close> is the request's
  \<^verbatim>\<open>values\<close>.
\<close>

theorem sheets_append_call:
  assumes "present (env ''GCP_PROJECT_EMAIL'')" and "present (env ''GCP_PRIVATE_KEY'')"
    and "present (env ''SHEET_ID'')"
  shows "\<exists>auth requestBody.
           fst (sheets_append env w b) =
             [ValuesAppend auth (env ''SHEET_ID'') (body_field b ''range'') ''USER_ENTERED''
                requestBody]
           \<and> get_prop ''values'' requestBody = body_field b ''values''"
proof -
  from assms(2) obtain auth where a: "googleClient env = Inr auth"
    using googleClient_present by blast
  have "fst (sheets_append env w b) =
          [ValuesAppend auth (env ''SHEET_ID'') (body_field b ''range'') ''USER_ENTERED''
             (JObj (object_of [(''values'', body_field b ''values'')]))]"
    using assms a by (simp add: sheets_append_def Let_def split: gaxios_result.split)
  moreover have "get_prop ''values'' (JObj (object_of [(''values'', body_field b ''values'')]))
                   = body_field b ''values''"
    by (cases "body_field b ''values''") simp_all
  ultimately show ?thesis by blast
qed

theorem sheets_append_call_witness:
  "present (env_full ''GCP_PROJECT_EMAIL'') \<and> present (env_full ''GCP_PRIVATE_KEY'') \<and>
   present (env_full ''SHEET_ID'') \<and>
   (\<exists>auth requestBody.
      fst (sheets_append env_full demo_world append_request) =
        [ValuesAppend auth (Some ''sheet'') (Some (JStr ''Attendance!A:D'')) ''USER_ENTERED''
           requestBody]
      \<and> get_prop ''values'' requestBody = Some (JArr [JArr [JStr ''Asha'', JStr ''P'']]))"
proof -
  have e: "present (env_full ''GCP_PROJECT_EMAIL'')" and k: "present (env_full ''GCP_PRIVATE_KEY'')"
    and i: "present (env_full ''SHEET_ID'')"
    by (simp_all add: env_eval)
  have v: "env_full ''SHEET_ID'' = Some ''sheet''"
    "body_field append_request ''range'' = Some (JStr ''Attendance!A:D'')"
    "body_field append_request ''values'' = Some (JArr [JArr [JStr ''Asha'', JStr ''P'']])"
    by (simp_all add: env_full_def append_request_def body_field_def)
  from sheets_append_call [OF e k i, of demo_world append_request] e k i
  show ?thesis
    by (simp only: v)
qed

section \<open>Resolve Public URL: no guard, no catch\<close>

text \<open>
  Claim C10. Whatever the configuration, the public-URL handler calls the storage client
  and either answers 200 with \<^verbatim>\<open>{ ok: true, url }\<close>, the URL being what the client returned
  for the path, or lets the client's exception leave the handler. Every other endpoint
  always answers with a response, and answers 400 with its configuration error when its
  configuration is absent.
\<close>

theorem public_url_unguarded:
  "((\<exists>u. getPublicUrl supabase ''materials'' (body_field b ''path'') = Inr u
         \<and> handle env supabase w PublicUrl b =
             ([GetPublicUrl ''materials'' (body_field b ''path'')],
              Responded 200 (JObj [(''ok'', JBool True), (''url'', JStr u)])))
     \<or> (\<exists>e. getPublicUrl supabase ''materials'' (body_field b ''path'') = Inl e
         \<and> handle env supabase w PublicUrl b =
             ([GetPublicUrl ''materials'' (body_field b ''path'')], Uncaught e)))
   \<and> (\<forall>r. r \<noteq> PublicUrl \<longrightarrow>
         (\<exists>s j. snd (handle env supabase w r b) = Responded s j)
         \<and> (\<not> configured env r \<longrightarrow>
              snd (handle env supabase w r b) = Responded 400 (failure (config_message r))))"
proof (intro conjI allI impI)
  show "(\<exists>u. getPublicUrl supabase ''materials'' (body_field b ''path'') = Inr u
         \<and> handle env supabase w PublicUrl b =
             ([GetPublicUrl ''materials'' (body_field b ''path'')],
              Responded 200 (JObj [(''ok'', JBool True), (''url'', JStr u)])))
     \<or> (\<exists>e. getPublicUrl supabase ''materials'' (body_field b ''path'') = Inl e
         \<and> handle env supabase w PublicUrl b =
             ([GetPublicUrl ''materials'' (body_field b ''path'')], Uncaught e))"
    by (cases "getPublicUrl supabase ''materials'' (body_field b ''path'')")
       (simp_all add: handle_def public_url_def Let_def)
next
  fix r assume "r \<noteq> PublicUrl"
  then show "\<exists>s j. snd (handle env supabase w r b) = Responded s j"
    by (rule guarded_responds)
next
  fix r assume "r \<noteq> PublicUrl" and "\<not> configured env r"
  then show "snd (handle env supabase w r b) = Responded 400 (failure (config_message r))"
    by (simp add: unconfigured_400)
qed

theorem public_url_unguarded_witness:
  "handle env_no_storage demo_client demo_world PublicUrl path_request =
     ([GetPublicUrl ''materials'' (Some (JStr ''1700000000000-notes.pdf''))],
      Responded 200 (JObj [(''ok'', JBool True),
        (''url'', JStr ''https://p.supabase.co/storage/v1/object/public/materials/1700000000000-notes.pdf'')]))
   \<and> handle env_no_storage demo_client demo_world PublicUrl [] =
     ([GetPublicUrl ''materials'' None], Uncaught (Error ''path.replace is not a function''))
   \<and> \<not> configured env_no_storage SignUrl
   \<and> snd (handle env_no_storage demo_client demo_world SignUrl path_request) =
       Responded 400 (failure ''Supabase credentials are not configured on the server.'')"
proof -
  note t = public_url_unguarded [of demo_client _ env_no_storage demo_world]
  have p: "body_field path_request ''path'' = Some (JStr ''1700000000000-notes.pdf'')"
    "body_field [] ''path'' = None"
    by (simp_all add: path_request_def body_field_def)
  have g: "getPublicUrl demo_client ''materials'' (Some (JStr ''1700000000000-notes.pdf'')) =
             Inr ''https://p.supabase.co/storage/v1/object/public/materials/1700000000000-notes.pdf''"
    "getPublicUrl demo_client ''materials'' None = Inl (Error ''path.replace is not a function'')"
    by (simp_all add: demo_client_def)
  have c: "\<not> configured env_no_storage SignUrl"
    by (simp add: configured_def env_eval)
  from t [of path_request] have a1: "handle env_no_storage demo_client demo_world PublicUrl path_request =
     ([GetPublicUrl ''materials'' (Some (JStr ''1700000000000-notes.pdf''))],
      Responded 200 (JObj [(''ok'', JBool True),
        (''url'', JStr ''https://p.supabase.co/storage/v1/object/public/materials/1700000000000-notes.pdf'')]))"
    by (simp add: p g)
  from t [of "[]"] have a2: "handle env_no_storage demo_client demo_world PublicUrl [] =
     ([GetPublicUrl ''materials'' None], Uncaught (Error ''path.replace is not a function''))"
    by (simp add: p g)
  from t [of path_request] c have a3:
    "snd (handle env_no_storage demo_client demo_world SignUrl path_request) =
       Responded 400 (failure ''Supabase credentials are not configured on the server.'')"
    by auto
  from a1 a2 c a3 show ?thesis by blast
qed

section \<open>Absent storage credentials\<close>

lemma strict_refuses:
  "\<not> present url \<Longrightarrow> strict_createClient url key = Inl (Error ''supabaseUrl is required.'')"
  by (simp add: strict_createClient_def)

lemma no_storage_url: "\<not> present (env_no_storage ''SUPABASE_URL'')"
  by (simp add: env_no_storage_def present_def)

lemma not_started: "serve env_no_storage demo_world r b = NotStarted (Error ''supabaseUrl is required.'')"
  by (simp add: serve_def demo_world_def strict_refuses no_storage_url)

lemma sign_url_no_400:
  "present (env ''SUPABASE_URL'') \<Longrightarrow> present (env ''SUPABASE_SERVICE_KEY'') \<Longrightarrow>
   snd (sign_url env supabase w b) \<noteq>
     Responded 400 (failure ''Supabase credentials are not configured on the server.'')"
  by (simp add: sign_url_def Let_def split: sum.split option.split)

text \<open>
  Claim C1 is not met by the code. With the storage credentials absent and every other
  endpoint fully configured, module evaluation throws in \<^verbatim>\<open>createClient\<close> on line 83, before
  \<^verbatim>\<open>app.listen\<close>: the process serves no request on any endpoint, whereas with the storage
  credentials present the same message request is served.
\<close>

theorem startup_without_storage:
  "configured env_no_storage WhatsappSend \<and> configured env_no_storage CalendarCreate \<and>
   configured env_no_storage SheetsAppend \<and> configured env_no_storage AiGenerate \<and>
   (\<forall>r b. serve env_no_storage demo_world r b = NotStarted (Error ''supabaseUrl is required.'')) \<and>
   serve env_no_storage demo_world WhatsappSend hello_body
     = NotStarted (Error ''supabaseUrl is required.'') \<and>
   serve env_full demo_world WhatsappSend hello_body =
     Served ([Fetch (whatsapp_request env_full
                (JObj [(''messaging_product'', JStr ''whatsapp''), (''to'', JStr ''15551234567''),
                       (''type'', JStr ''text''), (''text'', JObj [(''body'', JStr ''Hello'')])]))],
             Responded 200 (JObj [(''ok'', JBool True), (''data'', JObj [])]))"
proof -
  have c: "configured env_no_storage WhatsappSend" "configured env_no_storage CalendarCreate"
    "configured env_no_storage SheetsAppend" "configured env_no_storage AiGenerate"
    by (simp_all add: configured_def env_eval)
  have s: "createClient demo_world (env_full ''SUPABASE_URL'') (env_full ''SUPABASE_SERVICE_KEY'')
             = Inr demo_client"
    by (simp add: demo_world_def strict_createClient_def full_present)
  have f: "fetch demo_world rq = Inr \<lparr> status = 200, json_body = Inr (JObj []) \<rparr>" for rq
    by (simp add: demo_world_def)
  have w: "serve env_full demo_world WhatsappSend hello_body =
     Served ([Fetch (whatsapp_request env_full
                (JObj [(''messaging_product'', JStr ''whatsapp''), (''to'', JStr ''15551234567''),
                       (''type'', JStr ''text''), (''text'', JObj [(''body'', JStr ''Hello'')])]))],
             Responded 200 (JObj [(''ok'', JBool True), (''data'', JObj [])]))"
    by (simp add: serve_def s handle_def whatsapp_send_def full_present hello_payload f ok_def)
  from c not_started w show ?thesis by simp
qed

text \<open>
  Claim C4 is not met by the code at the two storage endpoints. With the storage
  credentials absent the process has stopped on line 83, so neither the signed-URL nor the
  public-URL endpoint answers anything; the 400 of line 86 is never sent by a running
  server, whatever the configuration and the request.
\<close>

theorem storage_guard_unreached:
  "\<not> configured env_no_storage SignUrl \<and>
   serve env_no_storage demo_world SignUrl notes_request
     = NotStarted (Error ''supabaseUrl is required.'') \<and>
   serve env_no_storage demo_world PublicUrl path_request
     = NotStarted (Error ''supabaseUrl is required.'') \<and>
   (\<forall>env b cs. serve env demo_world SignUrl b \<noteq>
      Served (cs, Responded 400
        (failure ''Supabase credentials are not configured on the server.'')))"
proof -
  have c: "\<not> configured env_no_storage SignUrl"
    by (simp add: configured_def env_eval)
  have g: "serve env demo_world SignUrl b \<noteq>
      Served (cs, Responded 400
        (failure ''Supabase credentials are not configured on the server.''))" for env b cs
  proof (cases "present (env ''SUPABASE_URL'') \<and> present (env ''SUPABASE_SERVICE_KEY'')")
    case True
    then have "serve env demo_world SignUrl b = Served (sign_url env demo_client demo_world b)"
      by (simp add: serve_def demo_world_def strict_createClient_def handle_def)
    with True sign_url_no_400 [of env demo_client demo_world b] show ?thesis
      by (cases "sign_url env demo_client demo_world b") auto
  next
    case False
    then show ?thesis
      by (auto simp: serve_def demo_world_def strict_createClient_def)
  qed
  from c not_started g show ?thesis by simp
qed

section \<open>Create Calendar Event: what is sent and what is exposed\<close>

lemma event_body_start:
  "ochain (get_prop ''start'' (event_body b)) (get_prop ''dateTime'') = body_field b ''startISO''"
  by (cases "body_field b ''summary''"; cases "body_field b ''description''";
      cases "body_field b ''startISO''"; cases "body_field b ''endISO''")
     (simp_all add: event_body_def)

lemma event_body_end:
  "ochain (get_prop ''end'' (event_body b)) (get_prop ''dateTime'') = body_field b ''endISO''"
  by (cases "body_field b ''summary''"; cases "body_field b ''description''";
      cases "body_field b ''startISO''"; cases "body_field b ''endISO''")
     (simp_all add: event_body_def)

lemma object_of_keys: "fst ` set (object_of fs) \<subseteq> fst ` set fs"
  by (induction fs rule: object_of.induct) auto

text \<open>
  Claim C7. With the service identity and the calendar identifier configured, the handler
  makes one insert call whose request body has \<^verbatim>\<open>start.dateTime\<close> equal to the request's
  \<^verbatim>\<open>startISO\<close> and \<^verbatim>\<open>end.dateTime\<close> equal to its \<^verbatim>\<open>endISO\<close>. A 200 response is the object
  made of \<^verbatim>\<open>ok\<close>, of \<^verbatim>\<open>eventId\<close> (the \<^verbatim>\<open>id\<close> of the provider's data) and of \<^verbatim>\<open>htmlLink\<close> (its
  \<^verbatim>\<open>htmlLink\<close>), and has no other key.
\<close>

theorem calendar_event_fields:
  assumes "present (env ''GCP_PROJECT_EMAIL'')" and "present (env ''GCP_PRIVATE_KEY'')"
    and "present (env ''CALENDAR_ID'')"
  shows "(\<exists>auth requestBody.
            fst (calendar_create env w b) = [EventsInsert auth (env ''CALENDAR_ID'') requestBody]
            \<and> ochain (get_prop ''start'' requestBody) (get_prop ''dateTime'')
                = body_field b ''startISO''
            \<and> ochain (get_prop ''end'' requestBody) (get_prop ''dateTime'')
                = body_field b ''endISO'')
         \<and> (\<forall>j. snd (calendar_create env w b) = Responded 200 j \<longrightarrow>
               (\<exists>auth r data kvs.
                  events_insert w auth (env ''CALENDAR_ID'') (event_body b) = Resolved r
                  \<and> u_data r = Some data
                  \<and> j = JObj kvs
                  \<and> kvs = object_of [(''ok'', Some (JBool True)),
                                      (''eventId'', get_prop ''id'' data),
                                      (''htmlLink'', get_prop ''htmlLink'' data)]
                  \<and> fst ` set kvs \<subseteq> {''ok'', ''eventId'', ''htmlLink''}))"
proof -
  from assms(2) obtain auth where a: "googleClient env = Inr auth"
    using googleClient_present by blast
  have calls: "fst (calendar_create env w b) = [EventsInsert auth (env ''CALENDAR_ID'') (event_body b)]"
    using assms a
    by (simp add: calendar_create_def Let_def split: gaxios_result.split option.split json.split)
  have keys: "\<And>data. fst ` set (object_of [(''ok'', Some (JBool True)),
                                      (''eventId'', get_prop ''id'' data),
                                      (''htmlLink'', get_prop ''htmlLink'' data)])
                \<subseteq> {''ok'', ''eventId'', ''htmlLink''}"
    using object_of_keys by fastforce
  have resp: "\<And>j. snd (calendar_create env w b) = Responded 200 j \<Longrightarrow>
               (\<exists>r data. events_insert w auth (env ''CALENDAR_ID'') (event_body b) = Resolved r
                  \<and> u_data r = Some data
                  \<and> j = JObj (object_of [(''ok'', Some (JBool True)),
                                      (''eventId'', get_prop ''id'' data),
                                      (''htmlLink'', get_prop ''htmlLink'' data)]))"
    using assms a
    by (auto simp: calendar_create_def Let_def split: gaxios_result.splits option.splits json.splits)
  show ?thesis
  proof (intro conjI allI impI)
    show "\<exists>auth requestBody.
            fst (calendar_create env w b) = [EventsInsert auth (env ''CALENDAR_ID'') requestBody]
            \<and> ochain (get_prop ''start'' requestBody) (get_prop ''dateTime'')
                = body_field b ''startISO''
            \<and> ochain (get_prop ''end'' requestBody) (get_prop ''dateTime'')
                = body_field b ''endISO''"
      using calls event_body_start event_body_end by blast
  next
    fix j assume "snd (calendar_create env w b) = Responded 200 j"
    from resp [OF this] keys
    show "\<exists>auth r data kvs.
                  events_insert w auth (env ''CALENDAR_ID'') (event_body b) = Resolved r
                  \<and> u_data r = Some data
                  \<and> j = JObj kvs
                  \<and> kvs = object_of [(''ok'', Some (JBool True)),
                                      (''eventId'', get_prop ''id'' data),
                                      (''htmlLink'', get_prop ''htmlLink'' data)]
                  \<and> fst ` set kvs \<subseteq> {''ok'', ''eventId'', ''htmlLink''}"
      by blast
  qed
qed

theorem calendar_event_fields_witness:
  "present (env_full ''GCP_PROJECT_EMAIL'') \<and> present (env_full ''GCP_PRIVATE_KEY'') \<and>
   present (env_full ''CALENDAR_ID'') \<and>
   snd (calendar_create env_full demo_world event_request) =
     Responded 200 (JObj [(''ok'', JBool True), (''eventId'', JStr ''evt1''),
                          (''htmlLink'', JStr ''https://calendar.example/evt1'')]) \<and>
   (\<exists>auth requestBody.
      fst (calendar_create env_full demo_world event_request) =
        [EventsInsert auth (Some ''cal'') requestBody]
      \<and> ochain (get_prop ''start'' requestBody) (get_prop ''dateTime'')
          = Some (JStr ''2025-01-06T10:00:00+05:30'')
      \<and> ochain (get_prop ''end'' requestBody) (get_prop ''dateTime'')
          = Some (JStr ''2025-01-06T11:00:00+05:30'')) \<and>
   (\<exists>auth r data kvs.
      events_insert demo_world auth (Some ''cal'') (event_body event_request) = Resolved r
      \<and> u_data r = Some data
      \<and> JObj [(''ok'', JBool True), (''eventId'', JStr ''evt1''),
               (''htmlLink'', JStr ''https://calendar.example/evt1'')] = JObj kvs
      \<and> kvs = object_of [(''ok'', Some (JBool True)),
                          (''eventId'', get_prop ''id'' data),
                          (''htmlLink'', get_prop ''htmlLink'' data)]
      \<and> fst ` set kvs \<subseteq> {''ok'', ''eventId'', ''htmlLink''})"
proof -
  have e: "present (env_full ''GCP_PROJECT_EMAIL'')" and k: "present (env_full ''GCP_PRIVATE_KEY'')"
    and i: "present (env_full ''CALENDAR_ID'')"
    by (simp_all add: env_eval)
  have v: "env_full ''CALENDAR_ID'' = Some ''cal''"
    "body_field event_request ''startISO'' = Some (JStr ''2025-01-06T10:00:00+05:30'')"
    "body_field event_request ''endISO'' = Some (JStr ''2025-01-06T11:00:00+05:30'')"
    by (simp_all add: env_full_def event_request_def body_field_def)
  have r: "snd (calendar_create env_full demo_world event_request) =
     Responded 200 (JObj [(''ok'', JBool True), (''eventId'', JStr ''evt1''),
                          (''htmlLink'', JStr ''https://calendar.example/evt1'')])"
    using e k i
    by (simp add: calendar_create_def googleClient_full demo_world_def event_data_def)
  note t = calendar_event_fields [OF e k i, of demo_world event_request, unfolded v]
  from t have a: "\<exists>auth requestBody.
      fst (calendar_create env_full demo_world event_request) =
        [EventsInsert auth (Some ''cal'') requestBody]
      \<and> ochain (get_prop ''start'' requestBody) (get_prop ''dateTime'')
          = Some (JStr ''2025-01-06T10:00:00+05:30'')
      \<and> ochain (get_prop ''end'' requestBody) (get_prop ''dateTime'')
          = Some (JStr ''2025-01-06T11:00:00+05:30'')"
    by (rule conjunct1)
  from t [THEN conjunct2, rule_format, OF r] e k i r a show ?thesis
    by (intro conjI)
qed

section \<open>Send Message: the payload\<close>

lemma text_entry_fun: "text_entry = (\<lambda>t. JObj [(''type'', JStr ''text''), (''text'', t)])"
  by (rule ext) (simp add: text_entry_def)

lemma template_array:
  assumes "truthy (body_field b ''templateName'')"
    and "body_field b ''templateParams'' = Some (JArr ts)"
  shows "\<exists>p t. whatsapp_payload b = Inr p
           \<and> get_prop ''type'' p = Some (JStr ''template'')
           \<and> get_prop ''text'' p = None
           \<and> get_prop ''template'' p = Some t
           \<and> get_prop ''name'' t = body_field b ''templateName''
           \<and> get_prop ''components'' t =
               Some (JArr [JObj [(''type'', JStr ''body''),
                                 (''parameters'', JArr (map (\<lambda>t. JObj [(''type'', JStr ''text''), (''text'', t)]) ts))]])"
  using assms
  by (cases "body_field b ''to''"; cases "body_field b ''templateName''")
     (simp_all add: whatsapp_payload_def template_components_def text_entry_fun)

lemma template_no_params:
  assumes "truthy (body_field b ''templateName'')"
    and "\<not> truthy (body_field b ''templateParams'')"
  shows "\<exists>p t. whatsapp_payload b = Inr p
           \<and> get_prop ''type'' p = Some (JStr ''template'')
           \<and> get_prop ''text'' p = None
           \<and> get_prop ''template'' p = Some t
           \<and> get_prop ''name'' t = body_field b ''templateName''
           \<and> get_prop ''components'' t = Some (JArr [])"
  using assms
  by (cases "body_field b ''to''"; cases "body_field b ''templateName''")
     (simp_all add: whatsapp_payload_def template_components_def)

lemma template_bad_params:
  assumes "truthy (body_field b ''templateName'')"
    and "truthy (body_field b ''templateParams'')"
    and "\<forall>ts. body_field b ''templateParams'' \<noteq> Some (JArr ts)"
  shows "whatsapp_payload b = Inl (Error ''templateParams.map is not a function'')"
  using assms
  by (simp add: whatsapp_payload_def template_components_def
      split: option.splits json.splits)

lemma text_mode:
  assumes "\<not> truthy (body_field b ''templateName'')"
  shows "\<exists>p x. whatsapp_payload b = Inr p
           \<and> get_prop ''type'' p = Some (JStr ''text'')
           \<and> get_prop ''template'' p = None
           \<and> get_prop ''text'' p = Some x
           \<and> get_prop ''body'' x = body_field b ''text''"
  using assms
  by (cases "body_field b ''to''"; cases "body_field b ''text''")
     (simp_all add: whatsapp_payload_def)

lemma payload_sent:
  assumes "present (env ''META_WABA_TOKEN'')" and "present (env ''META_PHONE_NUMBER_ID'')"
  shows "(\<forall>p. whatsapp_payload b = Inr p \<longrightarrow>
            (\<exists>rq. fst (whatsapp_send env w b) = [Fetch rq] \<and> rq_body rq = p))
         \<and> (\<forall>e. whatsapp_payload b = Inl e \<longrightarrow>
               whatsapp_send env w b = ([], Responded 500 (failure (message e))))"
  using assms
  by (simp add: whatsapp_send_def whatsapp_request_def Let_def split: sum.split)

text \<open>
  Claim C6, as stated, fails on two requests. A template name that is present but empty
  makes the handler send a text payload; template parameters that are not a list make it
  send nothing and answer 500.
\<close>

theorem send_message_payload_counterexample:
  "body_field empty_name_body ''templateName'' = Some (JStr []) \<and>
   fst (whatsapp_send env_full demo_world empty_name_body) =
     [Fetch (whatsapp_request env_full
        (JObj [(''messaging_product'', JStr ''whatsapp''), (''to'', JStr ''15551234567''),
               (''type'', JStr ''text''), (''text'', JObj [(''body'', JStr ''Hello'')])]))] \<and>
   body_field string_params_body ''templateName'' = Some (JStr ''fee_reminder'') \<and>
   body_field string_params_body ''templateParams'' = Some (JStr ''Asha'') \<and>
   whatsapp_send env_full demo_world string_params_body =
     ([], Responded 500
               (JObj [(''ok'', JBool False),
                      (''error'', JStr ''templateParams.map is not a function'')]))"
  by (simp add: whatsapp_send_def full_present whatsapp_payload_def template_components_def
      empty_name_body_def string_params_body_def body_field_def demo_world_def ok_def
      failure_def)

text \<open>
  Claim C6, amended. With the messaging credentials configured: if the template name is
  truthy and the template parameters are a list, the payload sent has type
  \<^verbatim>\<open>template\<close>, carries the name, and its components are one \<^verbatim>\<open>body\<close> component whose
  parameters wrap each given parameter, in order, as a text entry; if the template name
  is truthy and the template parameters are falsy, the components are the empty list; if
  the template name is truthy and the template parameters are truthy but not a list,
  nothing is sent and the answer is 500; if the template name is falsy, the payload has
  type \<^verbatim>\<open>text\<close>, no template, and \<^verbatim>\<open>text.body\<close> is the request's \<^verbatim>\<open>text\<close>.
\<close>

theorem send_message_payload:
  assumes "present (env ''META_WABA_TOKEN'')" and "present (env ''META_PHONE_NUMBER_ID'')"
  shows
   "(truthy (body_field b ''templateName'') \<and> body_field b ''templateParams'' = Some (JArr ts)
       \<longrightarrow>
       (\<exists>rq t. fst (whatsapp_send env w b) = [Fetch rq]
          \<and> get_prop ''type'' (rq_body rq) = Some (JStr ''template'')
          \<and> get_prop ''text'' (rq_body rq) = None
          \<and> get_prop ''template'' (rq_body rq) = Some t
          \<and> get_prop ''name'' t = body_field b ''templateName''
          \<and> get_prop ''components'' t =
               Some (JArr [JObj [(''type'', JStr ''body''),
                                 (''parameters'', JArr (map (\<lambda>t. JObj [(''type'', JStr ''text''), (''text'', t)]) ts))]])))
    \<and> (truthy (body_field b ''templateName'') \<and> \<not> truthy (body_field b ''templateParams'')
       \<longrightarrow>
       (\<exists>rq t. fst (whatsapp_send env w b) = [Fetch rq]
          \<and> get_prop ''type'' (rq_body rq) = Some (JStr ''template'')
          \<and> get_prop ''text'' (rq_body rq) = None
          \<and> get_prop ''template'' (rq_body rq) = Some t
          \<and> get_prop ''name'' t = body_field b ''templateName''
          \<and> get_prop ''components'' t = Some (JArr [])))
    \<and> (truthy (body_field b ''templateName'') \<and> truthy (body_field b ''templateParams'')
        \<and> (\<forall>xs. body_field b ''templateParams'' \<noteq> Some (JArr xs)) \<longrightarrow>
          whatsapp_send env w b =
            ([], Responded 500
               (JObj [(''ok'', JBool False),
                      (''error'', JStr ''templateParams.map is not a function'')])))
    \<and> (\<not> truthy (body_field b ''templateName'') \<longrightarrow>
          (\<exists>rq x. fst (whatsapp_send env w b) = [Fetch rq]
             \<and> get_prop ''type'' (rq_body rq) = Some (JStr ''text'')
             \<and> get_prop ''template'' (rq_body rq) = None
             \<and> get_prop ''text'' (rq_body rq) = Some x
             \<and> get_prop ''body'' x = body_field b ''text''))"
proof (intro conjI impI)
  note sent = payload_sent [OF assms, of b w]
  {
    assume "truthy (body_field b ''templateName'') \<and> body_field b ''templateParams'' = Some (JArr ts)"
    then have "truthy (body_field b ''templateName'')"
      and "body_field b ''templateParams'' = Some (JArr ts)"
      by simp_all
    from template_array [OF this] sent
    show "\<exists>rq t. fst (whatsapp_send env w b) = [Fetch rq]
          \<and> get_prop ''type'' (rq_body rq) = Some (JStr ''template'')
          \<and> get_prop ''text'' (rq_body rq) = None
          \<and> get_prop ''template'' (rq_body rq) = Some t
          \<and> get_prop ''name'' t = body_field b ''templateName''
          \<and> get_prop ''components'' t =
               Some (JArr [JObj [(''type'', JStr ''body''),
                                 (''parameters'', JArr (map (\<lambda>t. JObj [(''type'', JStr ''text''), (''text'', t)]) ts))]])"
      by blast
  next
    assume "truthy (body_field b ''templateName'') \<and> \<not> truthy (body_field b ''templateParams'')"
    then have "truthy (body_field b ''templateName'')"
      and "\<not> truthy (body_field b ''templateParams'')"
      by simp_all
    from template_no_params [OF this] sent
    show "\<exists>rq t. fst (whatsapp_send env w b) = [Fetch rq]
          \<and> get_prop ''type'' (rq_body rq) = Some (JStr ''template'')
          \<and> get_prop ''text'' (rq_body rq) = None
          \<and> get_prop ''template'' (rq_body rq) = Some t
          \<and> get_prop ''name'' t = body_field b ''templateName''
          \<and> get_prop ''components'' t = Some (JArr [])"
      by blast
  next
    assume "truthy (body_field b ''templateName'') \<and> truthy (body_field b ''templateParams'')
        \<and> (\<forall>xs. body_field b ''templateParams'' \<noteq> Some (JArr xs))"
    then have "whatsapp_payload b = Inl (Error ''templateParams.map is not a function'')"
      using template_bad_params by blast
    with sent show "whatsapp_send env w b =
            ([], Responded 500
               (JObj [(''ok'', JBool False),
                      (''error'', JStr ''templateParams.map is not a function'')]))"
      by (simp add: failure_def)
  next
    assume "\<not> truthy (body_field b ''templateName'')"
    from text_mode [OF this] sent
    show "\<exists>rq x. fst (whatsapp_send env w b) = [Fetch rq]
             \<and> get_prop ''type'' (rq_body rq) = Some (JStr ''text'')
             \<and> get_prop ''template'' (rq_body rq) = None
             \<and> get_prop ''text'' (rq_body rq) = Some x
             \<and> get_prop ''body'' x = body_field b ''text''"
      by blast
  }
qed

theorem send_message_payload_witness:
  "present (env_full ''META_WABA_TOKEN'') \<and> present (env_full ''META_PHONE_NUMBER_ID'') \<and>
   (\<exists>rq t. fst (whatsapp_send env_full demo_world template_body) = [Fetch rq]
      \<and> get_prop ''type'' (rq_body rq) = Some (JStr ''template'')
      \<and> get_prop ''text'' (rq_body rq) = None
      \<and> get_prop ''template'' (rq_body rq) = Some t
      \<and> get_prop ''name'' t = Some (JStr ''fee_reminder'')
      \<and> get_prop ''components'' t =
           Some (JArr [JObj [(''type'', JStr ''body''),
             (''parameters'', JArr [JObj [(''type'', JStr ''text''), (''text'', JStr ''Asha'')],
                   JObj [(''type'', JStr ''text''), (''text'', JStr ''500'')]])]])) \<and>
   (\<exists>rq x. fst (whatsapp_send env_full demo_world hello_body) = [Fetch rq]
      \<and> get_prop ''type'' (rq_body rq) = Some (JStr ''text'')
      \<and> get_prop ''template'' (rq_body rq) = None
      \<and> get_prop ''text'' (rq_body rq) = Some x
      \<and> get_prop ''body'' x = Some (JStr ''Hello'')) \<and>
   whatsapp_send env_full demo_world string_params_body =
     ([], Responded 500
               (JObj [(''ok'', JBool False),
                      (''error'', JStr ''templateParams.map is not a function'')]))"
proof -
  note p = full_present(1) full_present(2)
  note t = send_message_payload [OF p, of _ _ demo_world]
  have v: "body_field template_body ''templateName'' = Some (JStr ''fee_reminder'')"
    "body_field template_body ''templateParams'' = Some (JArr [JStr ''Asha'', JStr ''500''])"
    "body_field hello_body ''templateName'' = None"
    "body_field hello_body ''text'' = Some (JStr ''Hello'')"
    "body_field string_params_body ''templateName'' = Some (JStr ''fee_reminder'')"
    "body_field string_params_body ''templateParams'' = Some (JStr ''Asha'')"
    by (simp_all add: template_body_def hello_body_def string_params_body_def body_field_def)
  from t [of template_body "[JStr ''Asha'', JStr ''500'']"]
  have a: "\<exists>rq t. fst (whatsapp_send env_full demo_world template_body) = [Fetch rq]
      \<and> get_prop ''type'' (rq_body rq) = Some (JStr ''template'')
      \<and> get_prop ''text'' (rq_body rq) = None
      \<and> get_prop ''template'' (rq_body rq) = Some t
      \<and> get_prop ''name'' t = Some (JStr ''fee_reminder'')
      \<and> get_prop ''components'' t =
           Some (JArr [JObj [(''type'', JStr ''body''),
             (''parameters'', JArr [JObj [(''type'', JStr ''text''), (''text'', JStr ''Asha'')],
                   JObj [(''type'', JStr ''text''), (''text'', JStr ''500'')]])]])"
    by (simp add: v)
  from t [of hello_body]
  have b: "\<exists>rq x. fst (whatsapp_send env_full demo_world hello_body) = [Fetch rq]
      \<and> get_prop ''type'' (rq_body rq) = Some (JStr ''text'')
      \<and> get_prop ''template'' (rq_body rq) = None
      \<and> get_prop ''text'' (rq_body rq) = Some x
      \<and> get_prop ''body'' x = Some (JStr ''Hello'')"
    by (simp add: v)
  from t [of string_params_body]
  have c: "whatsapp_send env_full demo_world string_params_body =
     ([], Responded 500
               (JObj [(''ok'', JBool False),
                      (''error'', JStr ''templateParams.map is not a function'')]))"
    by (simp add: v)
  from p a b c show ?thesis by blast
qed

section \<open>Provider failures\<close>

lemma whatsapp_relay:
  assumes "fst (whatsapp_send env w b) = [Fetch rq]" and "fetch w rq = Inr resp"
    and "\<not> ok resp" and "json_body resp = Inr data"
  shows "snd (whatsapp_send env w b) = Responded (status resp) data"
  using assms
  by (auto simp: whatsapp_send_def Let_def split: if_splits sum.splits)

lemma ai_relay:
  assumes "fst (ai_generate env w b) = [Fetch rq]" and "fetch w rq = Inr resp"
    and "\<not> ok resp" and "json_body resp = Inr data"
  shows "snd (ai_generate env w b) = Responded (status resp) data"
  using assms
  by (auto simp: ai_generate_def Let_def split: if_splits sum.splits)

lemma calendar_rejected:
  assumes "fst (calendar_create env w b) = [EventsInsert auth cal rb]"
    and "events_insert w auth cal rb = Rejected e u"
  shows "snd (calendar_create env w b) = Responded 500 (failure (message e))"
  using assms
  by (auto simp: calendar_create_def Let_def
      split: if_splits sum.splits gaxios_result.splits option.splits json.splits)

lemma sheets_rejected:
  assumes "fst (sheets_append env w b) = [ValuesAppend auth sheet rng opt rb]"
    and "values_append w auth sheet rng opt rb = Rejected e u"
  shows "snd (sheets_append env w b) = Responded 500 (failure (message e))"
  using assms
  by (auto simp: sheets_append_def Let_def split: if_splits sum.splits gaxios_result.splits)

lemma sign_url_error:
  assumes "fst (sign_url env supabase w b) = [CreateSignedUploadUrl bucket key]"
    and "createSignedUploadUrl supabase bucket key = Inr res" and "sr_error res = Some e"
  shows "snd (sign_url env supabase w b) = Responded 500 (failure (message e))"
  using assms
  by (auto simp: sign_url_def Let_def split: if_splits sum.splits option.splits)

text \<open>
  Claim C3, as stated, fails at the calendar endpoint: the provider answers 404, the
  client library rejects, and the handler answers 500 with the failure envelope.
\<close>

theorem upstream_failure_relay_counterexample:
  "fst (handle env_full demo_client world_404 CalendarCreate event_request) =
     [EventsInsert demo_auth (Some ''cal'') (event_body event_request)] \<and>
   events_insert world_404 demo_auth (Some ''cal'') (event_body event_request) =
     Rejected (Error ''Not Found'') (Some not_found) \<and>
   u_status not_found = 404 \<and>
   u_data not_found = Some (JObj [(''error'', JStr ''Not Found'')]) \<and>
   snd (handle env_full demo_client world_404 CalendarCreate event_request) =
     Responded 500 (JObj [(''ok'', JBool False), (''error'', JStr ''Not Found'')])"
  by (simp add: handle_def calendar_create_def googleClient_full full_present full_ids
      present_simps world_404_def not_found_def failure_def)

text \<open>
  Claim C3, amended. At the messaging and text-generation endpoints, when the call made
  completes with a non-2xx status and a JSON body, the response has that status and that
  body. At the calendar and sheets endpoints a rejected call, and at the signed-URL
  endpoint an error returned by the storage client, is answered with status 500 and the
  failure envelope carrying the error's message.
\<close>

theorem upstream_failure_relay:
  "((r = WhatsappSend \<or> r = AiGenerate) \<and> fst (handle env supabase w r b) = [Fetch rq]
      \<and> fetch w rq = Inr resp \<and> \<not> ok resp \<and> json_body resp = Inr data
      \<longrightarrow> snd (handle env supabase w r b) = Responded (status resp) data)
   \<and> (r = CalendarCreate \<and> fst (handle env supabase w r b) = [EventsInsert auth cal rb]
      \<and> events_insert w auth cal rb = Rejected e u
      \<longrightarrow> snd (handle env supabase w r b) = Responded 500 (failure (message e)))
   \<and> (r = SheetsAppend \<and> fst (handle env supabase w r b) = [ValuesAppend auth cal rng opt rb]
      \<and> values_append w auth cal rng opt rb = Rejected e u
      \<longrightarrow> snd (handle env supabase w r b) = Responded 500 (failure (message e)))
   \<and> (r = SignUrl \<and> fst (handle env supabase w r b) = [CreateSignedUploadUrl bucket key]
      \<and> createSignedUploadUrl supabase bucket key = Inr res \<and> sr_error res = Some e
      \<longrightarrow> snd (handle env supabase w r b) = Responded 500 (failure (message e)))"
proof (intro conjI impI)
  assume "(r = WhatsappSend \<or> r = AiGenerate) \<and> fst (handle env supabase w r b) = [Fetch rq]
      \<and> fetch w rq = Inr resp \<and> \<not> ok resp \<and> json_body resp = Inr data"
  then show "snd (handle env supabase w r b) = Responded (status resp) data"
    using whatsapp_relay [of env w b rq resp data] ai_relay [of env w b rq resp data]
    by (auto simp: handle_def)
next
  assume "r = CalendarCreate \<and> fst (handle env supabase w r b) = [EventsInsert auth cal rb]
      \<and> events_insert w auth cal rb = Rejected e u"
  then show "snd (handle env supabase w r b) = Responded 500 (failure (message e))"
    using calendar_rejected [of env w b auth cal rb e u] by (auto simp: handle_def)
next
  assume "r = SheetsAppend \<and> fst (handle env supabase w r b) = [ValuesAppend auth cal rng opt rb]
      \<and> values_append w auth cal rng opt rb = Rejected e u"
  then show "snd (handle env supabase w r b) = Responded 500 (failure (message e))"
    using sheets_rejected [of env w b auth cal rng opt rb e u] by (auto simp: handle_def)
next
  assume "r = SignUrl \<and> fst (handle env supabase w r b) = [CreateSignedUploadUrl bucket key]
      \<and> createSignedUploadUrl supabase bucket key = Inr res \<and> sr_error res = Some e"
  then show "snd (handle env supabase w r b) = Responded 500 (failure (message e))"
    using sign_url_error [of env supabase w b bucket key res e] by (auto simp: handle_def)
qed

theorem upstream_failure_relay_witness:
  "fst (handle env_full demo_client world_401 WhatsappSend hello_body) =
     [Fetch (whatsapp_request env_full
        (JObj [(''messaging_product'', JStr ''whatsapp''), (''to'', JStr ''15551234567''),
               (''type'', JStr ''text''), (''text'', JObj [(''body'', JStr ''Hello'')])]))] \<and>
   fetch world_401 (whatsapp_request env_full
        (JObj [(''messaging_product'', JStr ''whatsapp''), (''to'', JStr ''15551234567''),
               (''type'', JStr ''text''), (''text'', JObj [(''body'', JStr ''Hello'')])]))
     = Inr \<lparr> status = 401, json_body = Inr provider_error \<rparr> \<and>
   \<not> ok \<lparr> status = 401, json_body = Inr provider_error \<rparr> \<and>
   snd (handle env_full demo_client world_401 WhatsappSend hello_body) =
     Responded 401 provider_error \<and>
   fst (handle env_full demo_client world_404 CalendarCreate event_request) =
     [EventsInsert demo_auth (Some ''cal'') (event_body event_request)] \<and>
   snd (handle env_full demo_client world_404 CalendarCreate event_request) =
     Responded 500 (failure ''Not Found'')"
proof -
  let ?rq = "whatsapp_request env_full
        (JObj [(''messaging_product'', JStr ''whatsapp''), (''to'', JStr ''15551234567''),
               (''type'', JStr ''text''), (''text'', JObj [(''body'', JStr ''Hello'')])])"
  let ?resp = "\<lparr> status = 401, json_body = Inr provider_error \<rparr>"
  have c: "fst (handle env_full demo_client world_401 WhatsappSend hello_body) = [Fetch ?rq]"
    by (simp add: handle_def whatsapp_send_def full_present hello_payload world_401_def ok_def)
  have f: "fetch world_401 ?rq = Inr ?resp"
    by (simp add: world_401_def)
  have k: "\<not> ok ?resp"
    by (simp add: ok_def)
  have j: "json_body ?resp = Inr provider_error"
    by simp
  have c': "fst (handle env_full demo_client world_404 CalendarCreate event_request) =
     [EventsInsert demo_auth (Some ''cal'') (event_body event_request)]"
    by (simp add: handle_def calendar_create_def googleClient_full full_present full_ids
        present_simps world_404_def)
  have g: "events_insert world_404 demo_auth (Some ''cal'') (event_body event_request) =
     Rejected (Error ''Not Found'') (Some not_found)"
    by (simp add: world_404_def)
  note t = upstream_failure_relay [of _ env_full demo_client]
  from t [of WhatsappSend world_401 hello_body ?rq ?resp provider_error] c f k j
  have a: "snd (handle env_full demo_client world_401 WhatsappSend hello_body) =
     Responded 401 provider_error"
    by simp
  from t [of CalendarCreate world_404 event_request _ _ _ demo_auth "Some ''cal''"
      "event_body event_request" "Error ''Not Found''" "Some not_found"] c' g
  have b: "snd (handle env_full demo_client world_404 CalendarCreate event_request) =
     Responded 500 (failure ''Not Found'')"
    by simp
  from c f k a c' b show ?thesis by blast
qed

section \<open>The shape of failure responses\<close>













end
